theory Spec2Isabelle
  imports Main "HOL-Library.Word"
begin

section \<open>Data model\<close>

text \<open>
  The verified file is \<^verbatim>\<open>namedtensor/torch_base.py\<close>: the class \<^verbatim>\<open>NTorch\<close> with its
  operations \<^verbatim>\<open>dot\<close>, \<^verbatim>\<open>stack\<close>, \<^verbatim>\<open>cat\<close>, \<^verbatim>\<open>gather\<close>, \<^verbatim>\<open>scatter_\<close> and
  \<^verbatim>\<open>multi_index_select\<close>.

  A raw tensor of the underlying engine is a shape and its elements in row-major order.
  Elements are the 64-bit integers of the dtype \<^verbatim>\<open>torch.int64\<close> (the dtype of index
  tensors): sums and products wrap around modulo \<open>2 ^ 64\<close>, and \<open>sint\<close> reads an
  element as the signed integer it stands for. The operations of \<^verbatim>\<open>NTorch\<close> never look
  at the elements, they only move them; only the contraction backend adds and
  multiplies them. Tensors of a floating-point dtype are outside this model.
\<close>

type_synonym name = string

type_synonym elem = "64 word"

record raw =
  shape :: "nat list"
  elems :: "elem list"

text \<open>
  A NamedTensor has the two attributes the source reads: \<^verbatim>\<open>_tensor\<close> (also read through
  the property \<^verbatim>\<open>values\<close>) and \<^verbatim>\<open>_schema._names\<close>.
\<close>

record NamedTensor =
  tensor :: raw
  schema_names :: "name list"

text \<open>
  Every \<^verbatim>\<open>raise\<close> and every failing assertion or subscript of the source is a value of
  \<open>error\<close>. A constructor carries exactly what the source formats into the message.
\<close>

datatype error =
    NoContractDim name          \<comment> \<open>"No dimension %s to contract along"\<close>
  | StackMismatch               \<comment> \<open>"Tensors to stack don't have matching dimension names"\<close>
  | AssertionError              \<comment> \<open>the \<^verbatim>\<open>assert\<close> of \<^verbatim>\<open>cat\<close>\<close>
  | IndexError                  \<comment> \<open>\<^verbatim>\<open>tensors[0]\<close>, \<^verbatim>\<open>indices_names[1]\<close> out of range\<close>
  | KeyError                    \<comment> \<open>a dict subscript with a missing key\<close>
  | ValueError                  \<comment> \<open>\<^verbatim>\<open>names.index(dim)\<close> with a missing element\<close>
  | TypeError                   \<comment> \<open>an object used where a dimension name is needed\<close>
  | SizeMismatch nat nat        \<comment> \<open>"Size of elements in 'indices' should be %d, got %d"\<close>
  | RankInsufficient nat nat    \<comment> \<open>"Size of 'dims' must be <= tensor dims (%d), got %d"\<close>
  | DuplicateDims               \<comment> \<open>"Tuple 'dims' must contain unique names"\<close>
  | NotADimension name          \<comment> \<open>"%s is not a dimension name in tensor"\<close>
  | SchemaMismatchError         \<comment> \<open>force-order target is not a permutation of the names\<close>
  | DuplicateNameError          \<comment> \<open>schema construction with repeated names\<close>
  | UnknownDimensionError name  \<comment> \<open>a referenced name absent from a schema\<close>
  | RankInvariantError          \<comment> \<open>number of names differs from the rank of the tensor\<close>
  | EngineError                 \<comment> \<open>a positional primitive of the engine refused its arguments\<close>

fun ebind :: "error + 'a \<Rightarrow> ('a \<Rightarrow> error + 'b) \<Rightarrow> error + 'b" where
  "ebind (Inl e) f = Inl e"
| "ebind (Inr x) f = f x"

fun emap :: "('a \<Rightarrow> error + 'b) \<Rightarrow> 'a list \<Rightarrow> error + 'b list" where
  "emap f [] = Inr []"
| "emap f (x # xs) = ebind (f x) (\<lambda>y. ebind (emap f xs) (\<lambda>ys. Inr (y # ys)))"

fun index_of :: "'a list \<Rightarrow> 'a \<Rightarrow> nat" where
  "index_of [] x = 0"
| "index_of (y # ys) x = (if x = y then 0 else Suc (index_of ys x))"

subsection \<open>The underlying engine\<close>

text \<open>
  The positional primitives are external (PyTorch and opt\_einsum). Each operation of
  \<^verbatim>\<open>NTorch\<close> takes them as a record \<open>E\<close>, so that what is proved of the operation holds
  whatever the engine answers, including its own failures (\<open>Inl\<close>).

  \<^item> \<open>oe_contract ops out\<close> is \<^verbatim>\<open>oe.contract(t1, ids1, ..., tn, idsn, out, backend="torch")\<close>;
  \<^item> \<open>torch_stack ts d\<close> is \<^verbatim>\<open>torch.stack(ts, dim=d)\<close>, \<open>torch_cat ts d\<close> is
    \<^verbatim>\<open>torch.cat(ts, dim=d)\<close>;
  \<^item> \<open>torch_gather t d i\<close> is \<^verbatim>\<open>t.gather(d, i)\<close>;
  \<^item> \<open>torch_scatter_inplace t d i s\<close> is \<^verbatim>\<open>t.scatter_(d, i, s)\<close>: it returns the contents of
    \<^verbatim>\<open>t\<close> after the call and whether the call raised;
  \<^item> \<open>torch_permute t p\<close> is \<^verbatim>\<open>t.permute(*p)\<close>, \<open>torch_unsqueeze t d\<close> is
    \<^verbatim>\<open>t.unsqueeze(d)\<close>;
  \<^item> \<open>torch_iter t\<close> is the list a \<^verbatim>\<open>for\<close> loop over \<^verbatim>\<open>t\<close> (or \<^verbatim>\<open>tuple(t)\<close>) runs
    through, \<open>torch_getitem t k\<close> is \<^verbatim>\<open>t[k]\<close> for a tuple \<^verbatim>\<open>k\<close> of tensors.
\<close>

type_synonym operands = "(raw \<times> nat list) list"

record engine =
  oe_contract :: "operands \<Rightarrow> nat list \<Rightarrow> error + raw"
  torch_stack :: "raw list \<Rightarrow> nat \<Rightarrow> error + raw"
  torch_cat :: "raw list \<Rightarrow> nat \<Rightarrow> error + raw"
  torch_gather :: "raw \<Rightarrow> nat \<Rightarrow> raw \<Rightarrow> error + raw"
  torch_scatter_inplace :: "raw \<Rightarrow> nat \<Rightarrow> raw \<Rightarrow> raw \<Rightarrow> raw \<times> (error + unit)"
  torch_permute :: "raw \<Rightarrow> nat list \<Rightarrow> error + raw"
  torch_unsqueeze :: "raw \<Rightarrow> nat \<Rightarrow> error + raw"
  torch_iter :: "raw \<Rightarrow> error + raw list"
  torch_getitem :: "raw \<Rightarrow> raw list \<Rightarrow> error + raw"

subsection \<open>NamedTensor and Schema helpers\<close>

text \<open>
  Modelled from the spec: the constructor of \<^verbatim>\<open>NamedTensor\<close> (module
  \<^verbatim>\<open>torch_helpers\<close>, not among the sources). The spec: a Schema's names are unique and
  their number equals the rank of the tensor, checked on every construction path;
  \<^verbatim>\<open>DuplicateNameError\<close> is schema construction with repeated names.
\<close>

definition NamedTensor_init :: "raw \<Rightarrow> name list \<Rightarrow> error + NamedTensor" where
  "NamedTensor_init t names =
     (if \<not> distinct names then Inl DuplicateNameError
      else if length names \<noteq> length (shape t) then Inl RankInvariantError
      else Inr \<lparr>tensor = t, schema_names = names\<rparr>)"

text \<open>
  \<^verbatim>\<open>ntorch.tensor(t, names)\<close>: its argument is always a \<^verbatim>\<open>torch.Tensor\<close> in this file,
  so it is the first branch, \<^verbatim>\<open>NamedTensor(t, names)\<close>.
\<close>

definition ntorch_tensor :: "raw \<Rightarrow> name list \<Rightarrow> error + NamedTensor" where
  "ntorch_tensor t names = NamedTensor_init t names"

text \<open>
  Modelled from the spec: \<^verbatim>\<open>_schema.get(name)\<close> (class \<^verbatim>\<open>_Schema\<close>, not among the
  sources). The spec: the schema maps a name to its physical axis position;
  \<^verbatim>\<open>UnknownDimensionError\<close> is a referenced name absent from a schema.
\<close>

definition schema_get :: "NamedTensor \<Rightarrow> name \<Rightarrow> error + nat" where
  "schema_get t n =
     (if n \<in> set (schema_names t) then Inr (index_of (schema_names t) n)
      else Inl (UnknownDimensionError n))"

text \<open>
  Modelled from the spec: the property \<^verbatim>\<open>shape\<close> of a NamedTensor (not among the
  sources), the ordered dict from each name to the size of its axis.
\<close>

definition nt_shape :: "NamedTensor \<Rightarrow> (name \<times> nat) list" where
  "nt_shape t = zip (schema_names t) (shape (tensor t))"

text \<open>
  An object passed as the value of an \<^verbatim>\<open>updates\<close> dict: a dimension name or, as
  \<^verbatim>\<open>gather\<close> passes it, a NamedTensor.
\<close>

datatype pyobj = PyName name | PyNamedTensor NamedTensor

text \<open>
  Modelled from the spec: the renaming that \<^verbatim>\<open>_new\<close> applies to one name of the
  schema (not among the sources). The spec: \<^verbatim>\<open>updates\<close> renames a dimension. A name
  that is a key of \<^verbatim>\<open>updates\<close> is replaced by the value, which has to be a name;
  every other name stays.
\<close>

fun rename :: "(name \<times> pyobj) list \<Rightarrow> name \<Rightarrow> error + name" where
  "rename updates n =
     (case map_of updates n of
        None \<Rightarrow> Inr n
      | Some (PyName m) \<Rightarrow> Inr m
      | Some (PyNamedTensor _) \<Rightarrow> Inl TypeError)"

text \<open>
  Modelled from the spec: \<^verbatim>\<open>_new(raw, updates={})\<close> (not among the sources). The spec:
  it produces a new NamedTensor sharing the caller's schema unless \<^verbatim>\<open>updates\<close> renames
  a dimension.
\<close>

definition new :: "NamedTensor \<Rightarrow> raw \<Rightarrow> (name \<times> pyobj) list \<Rightarrow> error + NamedTensor" where
  "new self t updates =
     ebind (emap (rename updates) (schema_names self)) (\<lambda>names. NamedTensor_init t names)"

text \<open>
  Modelled from the spec: \<^verbatim>\<open>_force_order(names)\<close> (not among the sources). The spec:
  given a target order that is a permutation of the tensor's own names, it returns a
  NamedTensor whose physical axis order matches the target, by issuing a permutation
  request to the engine; it fails with \<^verbatim>\<open>SchemaMismatchError\<close> if the target is not
  exactly a permutation of the tensor's current names.
\<close>

definition force_order :: "engine \<Rightarrow> NamedTensor \<Rightarrow> name list \<Rightarrow> error + NamedTensor" where
  "force_order E self names =
     (if distinct names \<and> set names = set (schema_names self)
         \<and> length names = length (schema_names self)
      then ebind (torch_permute E (tensor self) (map (index_of (schema_names self)) names))
             (\<lambda>t. NamedTensor_init t names)
      else Inl SchemaMismatchError)"

section \<open>ContractionEngine: \<^verbatim>\<open>dot\<close>\<close>

text \<open>
  The dict \<^verbatim>\<open>ids\<close> is an association list in insertion order, so that \<^verbatim>\<open>len(ids)\<close>
  is its length. \<open>dot_names\<close> is the inner loop over one operand's names:
  \<^verbatim>\<open>ids[name]\<close>, read right after \<^verbatim>\<open>ids[name] = len(ids)\<close>, is the length before the
  insertion. \<open>dot_tensors\<close> is the outer loop over the operands. The argument list
  \<^verbatim>\<open>args\<close> alternates tensors and id lists; here it is the list of the pairs.
\<close>

type_synonym ids = "(name \<times> nat) list"

fun dot_names :: "name list \<Rightarrow> ids \<times> name list \<times> nat list \<Rightarrow> ids \<times> name list \<times> nat list" where
  "dot_names [] s = s"
| "dot_names (n # rest) (ids, seen_names, grp) =
     (case map_of ids n of
        None \<Rightarrow> dot_names rest
                 (ids @ [(n, length ids)], seen_names @ [n], grp @ [length ids])
      | Some i \<Rightarrow> dot_names rest (ids, seen_names, grp @ [i]))"

fun dot_tensors :: "NamedTensor list \<Rightarrow> operands \<times> ids \<times> name list \<Rightarrow> operands \<times> ids \<times> name list" where
  "dot_tensors [] s = s"
| "dot_tensors (t # ts) (args, ids, seen_names) =
     (case dot_names (schema_names t) (ids, seen_names, []) of
        (ids', seen_names', grp) \<Rightarrow>
          dot_tensors ts (args @ [(tensor t, grp)], ids', seen_names'))"

text \<open>
  \<open>dot_program\<close> is the body of \<^verbatim>\<open>dot\<close> up to the last line: the loops, \<^verbatim>\<open>keep\<close>, the
  check of the contracted names in the order of \<^verbatim>\<open>names\<close>, and the output id list.
  \<^verbatim>\<open>names\<close> is \<^verbatim>\<open>make_tuple(dims)\<close>; the model takes it as the tuple it already is.
\<close>

definition dot_program :: "name list \<Rightarrow> NamedTensor list \<Rightarrow> error + operands \<times> nat list \<times> name list" where
  "dot_program names tensors =
     (case dot_tensors tensors ([], [], []) of
        (args, ids, seen_names) \<Rightarrow>
          let keep = filter (\<lambda>n. n \<notin> set names) seen_names in
          (case find (\<lambda>n. n \<notin> set seen_names) names of
             Some n \<Rightarrow> Inl (NoContractDim n)
           | None \<Rightarrow>
               (case those (map (map_of ids) keep) of
                  None \<Rightarrow> Inl KeyError
                | Some out \<Rightarrow> Inr (args, out, keep))))"

text \<open>
  \<open>dot_run\<close> is the whole of \<^verbatim>\<open>dot\<close>: its first component lists the calls made to the
  contraction backend, its second is what \<^verbatim>\<open>dot\<close> returns or raises.
\<close>

definition dot_run :: "engine \<Rightarrow> name list \<Rightarrow> NamedTensor list \<Rightarrow> (operands \<times> nat list) list \<times> (error + NamedTensor)" where
  "dot_run E names tensors =
     (case dot_program names tensors of
        Inl e \<Rightarrow> ([], Inl e)
      | Inr (args, out, keep) \<Rightarrow>
          ([(args, out)], ebind (oe_contract E args out) (\<lambda>t. ntorch_tensor t keep)))"

definition dot :: "engine \<Rightarrow> name list \<Rightarrow> NamedTensor list \<Rightarrow> error + NamedTensor" where
  "dot E names tensors = snd (dot_run E names tensors)"

definition dot_calls :: "engine \<Rightarrow> name list \<Rightarrow> NamedTensor list \<Rightarrow> (operands \<times> nat list) list" where
  "dot_calls E names tensors = fst (dot_run E names tensors)"

text \<open>
  The distinct elements of a list in first-seen order: the reading of the spec's
  "distinct names across all operands, in first-seen order".
\<close>

fun first_seen :: "'a list \<Rightarrow> 'a list" where
  "first_seen [] = []"
| "first_seen (x # xs) = x # filter (\<lambda>y. y \<noteq> x) (first_seen xs)"


section \<open>CollectiveOps: \<^verbatim>\<open>stack\<close> and \<^verbatim>\<open>cat\<close>\<close>

text \<open>
  \<^verbatim>\<open>tensors[0]\<close> raises on the empty list; the loop over \<^verbatim>\<open>tensors[1:]\<close> raises at
  the first operand whose name tuple differs from the first operand's.
\<close>

definition stack :: "engine \<Rightarrow> NamedTensor list \<Rightarrow> name \<Rightarrow> error + NamedTensor" where
  "stack E tensors n =
     (case tensors of
        [] \<Rightarrow> Inl IndexError
      | t0 # rest \<Rightarrow>
          let old_names = schema_names t0 in
          if \<exists>t \<in> set rest. schema_names t \<noteq> old_names then Inl StackMismatch
          else ebind (torch_stack E (map tensor tensors) 0)
                 (\<lambda>r. ntorch_tensor r (n # old_names)))"

definition cat :: "engine \<Rightarrow> NamedTensor list \<Rightarrow> name \<Rightarrow> error + NamedTensor" where
  "cat E tensors dim =
     (case tensors of
        [] \<Rightarrow> Inl IndexError
      | t0 # rest \<Rightarrow>
          ebind (schema_get t0 dim) (\<lambda>d.
            if \<exists>t \<in> set rest. schema_names t \<noteq> schema_names t0 then Inl AssertionError
            else ebind (torch_cat E (map tensor tensors) d) (\<lambda>r. new t0 r [])))"

section \<open>IndexedOps: \<^verbatim>\<open>gather\<close>, \<^verbatim>\<open>scatter_\<close>, \<^verbatim>\<open>multi_index_select\<close>\<close>

definition index_order :: "NamedTensor \<Rightarrow> name \<Rightarrow> name \<Rightarrow> name list" where
  "index_order input indim outdim =
     map (\<lambda>n. if n \<noteq> indim then n else outdim) (schema_names input)"

text \<open>
  The last line of \<^verbatim>\<open>gather\<close> is
  \<^verbatim>\<open>input._new(input.values.gather(dim, b1.values), updates={index_dim: index})\<close>:
  the key of the dict is \<^verbatim>\<open>index_dim\<close> and its value is the NamedTensor \<^verbatim>\<open>index\<close>.
\<close>

definition gather :: "engine \<Rightarrow> NamedTensor \<Rightarrow> name \<Rightarrow> NamedTensor \<Rightarrow> name \<Rightarrow> error + NamedTensor" where
  "gather E input dim index index_dim =
     ebind (force_order E index (index_order input dim index_dim)) (\<lambda>b1.
     ebind (schema_get input dim) (\<lambda>d.
     ebind (torch_gather E (tensor input) d (tensor b1)) (\<lambda>r.
       new input r [(index_dim, PyNamedTensor index)])))"

text \<open>
  \<^verbatim>\<open>scatter_\<close> (here \<open>scatter_inplace\<close>) returns nothing and mutates the buffer of \<^verbatim>\<open>input\<close>. The model returns
  \<^verbatim>\<open>input\<close> as it is after the call, and \<open>Inr ()\<close> for the return of \<^verbatim>\<open>None\<close> or
  \<open>Inl\<close> for the exception. Operands are values: an \<^verbatim>\<open>index\<close> or \<^verbatim>\<open>src\<close> that shares
  its buffer with \<^verbatim>\<open>input\<close> is outside the model.
\<close>

definition scatter_inplace :: "engine \<Rightarrow> NamedTensor \<Rightarrow> name \<Rightarrow> NamedTensor \<Rightarrow> NamedTensor \<Rightarrow> name \<Rightarrow> NamedTensor \<times> (error + unit)" where
  "scatter_inplace E input dim index src index_dim =
     (case force_order E index (index_order input dim index_dim) of
        Inl e \<Rightarrow> (input, Inl e)
      | Inr index_force \<Rightarrow>
     (case force_order E src (index_order input dim index_dim) of
        Inl e \<Rightarrow> (input, Inl e)
      | Inr src_force \<Rightarrow>
     (case schema_get input dim of
        Inl e \<Rightarrow> (input, Inl e)
      | Inr d \<Rightarrow>
     (case torch_scatter_inplace E (tensor input) d (tensor index_force) (tensor src_force) of
        (t, res) \<Rightarrow> (input\<lparr>tensor := t\<rparr>, res)))))"

text \<open>\<^verbatim>\<open>names.index(dim)\<close>: the first position of \<^verbatim>\<open>dim\<close>, or \<^verbatim>\<open>ValueError\<close>.\<close>

definition list_index :: "'a list \<Rightarrow> 'a \<Rightarrow> error + nat" where
  "list_index xs x = (if x \<in> set xs then Inr (index_of xs x) else Inl ValueError)"

text \<open>
  \<open>select_rows\<close> is the part of \<^verbatim>\<open>multi_index_select\<close> after its four checks: the
  permutation that brings the axes of \<^verbatim>\<open>dims\<close> to the front, the loop over the rows of
  \<^verbatim>\<open>indices.values\<close> (each row \<^verbatim>\<open>idx\<close> is turned into the key \<^verbatim>\<open>tuple(idx)\<close>), the
  concatenation along axis 0 (the default of \<^verbatim>\<open>torch.cat\<close>) and the new names.
\<close>

definition select_rows :: "engine \<Rightarrow> NamedTensor \<Rightarrow> name list \<Rightarrow> NamedTensor \<Rightarrow> name \<Rightarrow> error + NamedTensor" where
  "select_rows E tens dims indices elements_dim =
     (let names = schema_names tens in
      ebind (emap (list_index names) dims) (\<lambda>match_dims.
        let remaining = filter (\<lambda>(i, n). i \<notin> set match_dims) (zip [0..<length names] names);
            remaining_dims = map fst remaining;
            remaining_names = map snd remaining;
            permute_idx = match_dims @ remaining_dims
        in
        ebind (torch_permute E (tensor tens) permute_idx) (\<lambda>vals.
        ebind (torch_iter E (tensor indices)) (\<lambda>rows.
        ebind (emap (\<lambda>idx. ebind (torch_iter E idx) (\<lambda>key.
                             ebind (torch_getitem E vals key) (\<lambda>v.
                               torch_unsqueeze E v 0))) rows) (\<lambda>tensors.
        ebind (torch_cat E tensors 0) (\<lambda>r.
          ntorch_tensor r (elements_dim # remaining_names)))))))"

text \<open>
  \<^verbatim>\<open>indices.shape[index_dim]\<close> reads the size of the axis named \<^verbatim>\<open>index_dim\<close>;
  \<^verbatim>\<open>len(tensor.shape)\<close> is the number of named axes; \<^verbatim>\<open>len(set(dims))\<close> is the
  number of distinct names in \<^verbatim>\<open>dims\<close>.
\<close>

definition multi_index_select :: "engine \<Rightarrow> NamedTensor \<Rightarrow> name list \<Rightarrow> NamedTensor \<Rightarrow> error + NamedTensor" where
  "multi_index_select E tens dims indices =
     (case schema_names indices of
        elements_dim # index_dim # _ \<Rightarrow>
          (case map_of (nt_shape indices) index_dim of
             None \<Rightarrow> Inl KeyError
           | Some sz \<Rightarrow>
               if length dims \<noteq> sz then Inl (SizeMismatch (length dims) sz)
               else if length (nt_shape tens) < length dims
                 then Inl (RankInsufficient (length (nt_shape tens)) (length dims))
               else if card (set dims) < length dims then Inl DuplicateDims
               else (case find (\<lambda>dim. dim \<notin> set (schema_names tens)) dims of
                       Some dim \<Rightarrow> Inl (NotADimension dim)
                     | None \<Rightarrow> select_rows E tens dims indices elements_dim))
      | _ \<Rightarrow> Inl IndexError)"

section \<open>A reference engine\<close>

text \<open>
  The primitives on row-major tensors, as their documentation describes them, for the
  properties that depend on what the engine computes. A primitive answers
  \<open>Inl EngineError\<close> on arguments it does not accept.
\<close>

definition wf_raw :: "raw \<Rightarrow> bool" where
  "wf_raw t = (length (elems t) = prod_list (shape t))"

fun all_idx :: "nat list \<Rightarrow> nat list list" where
  "all_idx [] = [[]]"
| "all_idx (n # sh) = concat (map (\<lambda>i. map (Cons i) (all_idx sh)) [0..<n])"

fun offset :: "nat list \<Rightarrow> nat list \<Rightarrow> nat" where
  "offset (n # sh) (i # idx) = i * prod_list sh + offset sh idx"
| "offset _ _ = 0"

definition at :: "raw \<Rightarrow> nat list \<Rightarrow> elem" where
  "at t idx = elems t ! offset (shape t) idx"

definition build :: "nat list \<Rightarrow> (nat list \<Rightarrow> elem) \<Rightarrow> raw" where
  "build sh f = \<lparr>shape = sh, elems = map f (all_idx sh)\<rparr>"

definition lookup0 :: "('a \<times> nat) list \<Rightarrow> 'a \<Rightarrow> nat" where
  "lookup0 env l = (case map_of env l of Some i \<Rightarrow> i | None \<Rightarrow> 0)"

text \<open>
  Einstein summation on at least one operand: every label has one size; the output has
  the labels of \<open>out\<close>; an entry of the output is the sum, over all values of the labels
  not in \<open>out\<close>, of the product of the operands' entries, in 64-bit arithmetic.
\<close>

definition ref_contract :: "operands \<Rightarrow> nat list \<Rightarrow> error + raw" where
  "ref_contract ops out =
     (let sizes = concat (map (\<lambda>(t, ids). zip ids (shape t)) ops);
          labels = first_seen (map fst sizes);
          summed = filter (\<lambda>l. l \<notin> set out) labels
      in if ops = [] \<or> list_ex (\<lambda>(t, ids). length ids \<noteq> length (shape t)) ops
            \<or> list_ex (\<lambda>(l, n). map_of sizes l \<noteq> Some n) sizes
            \<or> \<not> set out \<subseteq> set labels \<or> \<not> distinct out
         then Inl EngineError
         else Inr (build (map (lookup0 sizes) out) (\<lambda>oidx.
                sum_list (map (\<lambda>sidx.
                  prod_list (map (\<lambda>(t, ids).
                    at t (map (lookup0 (zip (out @ summed) (oidx @ sidx))) ids)) ops))
                  (all_idx (map (lookup0 sizes) summed))))))"

text \<open>
  \<^verbatim>\<open>t.permute(*p)\<close> needs at least one argument: with the empty \<open>p\<close> of a tensor of
  rank 0 the call is \<^verbatim>\<open>t.permute()\<close>, which is refused.
\<close>

definition ref_permute :: "raw \<Rightarrow> nat list \<Rightarrow> error + raw" where
  "ref_permute t p =
     (if p \<noteq> [] \<and> distinct p \<and> set p = {0..<length (shape t)}
      then Inr (build (map (\<lambda>a. shape t ! a) p)
                  (\<lambda>idx. at t (map (\<lambda>a. idx ! index_of p a) [0..<length p])))
      else Inl EngineError)"

definition ref_unsqueeze :: "raw \<Rightarrow> nat \<Rightarrow> error + raw" where
  "ref_unsqueeze t d =
     (if d \<le> length (shape t)
      then Inr \<lparr>shape = take d (shape t) @ 1 # drop d (shape t), elems = elems t\<rparr>
      else Inl EngineError)"

definition sub_tensor :: "raw \<Rightarrow> nat list \<Rightarrow> nat \<Rightarrow> raw" where
  "sub_tensor t sh i =
     \<lparr>shape = sh, elems = take (prod_list sh) (drop (i * prod_list sh) (elems t))\<rparr>"

definition ref_iter :: "raw \<Rightarrow> error + raw list" where
  "ref_iter t =
     (case shape t of
        [] \<Rightarrow> Inl EngineError
      | n # sh \<Rightarrow> Inr (map (sub_tensor t sh) [0..<n]))"

text \<open>
  Subscripting with a tuple of integers, negative ones counting from the end. A key
  with a component that is not a 0-dimensional tensor is not covered.
\<close>

fun select :: "raw \<Rightarrow> int list \<Rightarrow> error + raw" where
  "select t [] = Inr t"
| "select t (i # rest) =
     (case shape t of
        [] \<Rightarrow> Inl EngineError
      | n # sh \<Rightarrow>
          let j = (if i < 0 then i + int n else i) in
          if 0 \<le> j \<and> j < int n then select (sub_tensor t sh (nat j)) rest
          else Inl EngineError)"

definition ref_getitem :: "raw \<Rightarrow> raw list \<Rightarrow> error + raw" where
  "ref_getitem t key =
     (if list_all (\<lambda>k. shape k = [] \<and> length (elems k) = 1) key
      then select t (map (\<lambda>k. sint (elems k ! 0)) key)
      else Inl EngineError)"

definition ref_cat :: "raw list \<Rightarrow> nat \<Rightarrow> error + raw" where
  "ref_cat ts d =
     (case ts of
        [] \<Rightarrow> Inl EngineError
      | t0 # rest \<Rightarrow>
          if d < length (shape t0)
             \<and> list_all (\<lambda>t. length (shape t) = length (shape t0)
                              \<and> (shape t)[d := 0] = (shape t0)[d := 0]) rest
          then Inr \<lparr>shape = (shape t0)[d := sum_list (map (\<lambda>t. shape t ! d) ts)],
                    elems = concat (map (\<lambda>blk. concat (map (\<lambda>t.
                              let c = prod_list (drop d (shape t))
                              in take c (drop (blk * c) (elems t))) ts))
                            [0..<prod_list (take d (shape t0))])\<rparr>
          else Inl EngineError)"

definition ref_stack :: "raw list \<Rightarrow> nat \<Rightarrow> error + raw" where
  "ref_stack ts d =
     (case ts of
        [] \<Rightarrow> Inl EngineError
      | t0 # rest \<Rightarrow>
          if list_all (\<lambda>t. shape t = shape t0) rest
          then ebind (emap (\<lambda>t. ref_unsqueeze t d) ts) (\<lambda>us. ref_cat us d)
          else Inl EngineError)"

definition ref_gather :: "raw \<Rightarrow> nat \<Rightarrow> raw \<Rightarrow> error + raw" where
  "ref_gather t d index =
     (if length (shape index) = length (shape t) \<and> d < length (shape t)
         \<and> list_all (\<lambda>k. k = d \<or> shape index ! k \<le> shape t ! k) [0..<length (shape t)]
         \<and> list_all (\<lambda>v. 0 \<le> sint v \<and> sint v < int (shape t ! d)) (elems index)
      then Inr (build (shape index) (\<lambda>idx. at t (idx[d := nat (sint (at index idx))])))
      else Inl EngineError)"

text \<open>
  The in-place scatter checks the shapes first and then writes entry by entry, in
  row-major order of the index tensor: an index value out of range raises at that
  entry, with the entries before it already written.
\<close>

fun scatter_loop :: "raw \<Rightarrow> nat \<Rightarrow> raw \<Rightarrow> raw \<Rightarrow> elem list \<Rightarrow> nat list list \<Rightarrow> elem list \<times> (error + unit)" where
  "scatter_loop t d index src es [] = (es, Inr ())"
| "scatter_loop t d index src es (idx # rest) =
     (let v = sint (at index idx) in
      if 0 \<le> v \<and> v < int (shape t ! d)
      then scatter_loop t d index src
             (es[offset (shape t) (idx[d := nat v]) := at src idx]) rest
      else (es, Inl EngineError))"

definition ref_scatter_inplace :: "raw \<Rightarrow> nat \<Rightarrow> raw \<Rightarrow> raw \<Rightarrow> raw \<times> (error + unit)" where
  "ref_scatter_inplace t d index src =
     (if length (shape index) = length (shape t) \<and> length (shape src) = length (shape t)
         \<and> d < length (shape t)
         \<and> list_all (\<lambda>k. shape index ! k \<le> shape src ! k
                          \<and> (k = d \<or> shape index ! k \<le> shape t ! k)) [0..<length (shape t)]
      then (case scatter_loop t d index src (elems t) (all_idx (shape index)) of
              (es, res) \<Rightarrow> (t\<lparr>elems := es\<rparr>, res))
      else (t, Inl EngineError))"

definition ref_engine :: engine where
  "ref_engine =
     \<lparr>oe_contract = ref_contract, torch_stack = ref_stack, torch_cat = ref_cat,
      torch_gather = ref_gather, torch_scatter_inplace = ref_scatter_inplace,
      torch_permute = ref_permute, torch_unsqueeze = ref_unsqueeze,
      torch_iter = ref_iter, torch_getitem = ref_getitem\<rparr>"


section \<open>Example tensors\<close>

definition ex_X :: NamedTensor where
  "ex_X = \<lparr>tensor = \<lparr>shape = [2, 3], elems = [1, 2, 3, 4, 5, 6]\<rparr>,
           schema_names = [''i'', ''k'']\<rparr>"

definition ex_Y :: NamedTensor where
  "ex_Y = \<lparr>tensor = \<lparr>shape = [3, 4], elems = [1, 0, 0, 1, 0, 1, 0, 1, 0, 0, 1, 1]\<rparr>,
           schema_names = [''k'', ''j'']\<rparr>"

definition ex_Xbig :: NamedTensor where
  "ex_Xbig = \<lparr>tensor = \<lparr>shape = [2, 3], elems = [2 ^ 62, 2 ^ 62, 0, 0, 0, 0]\<rparr>,
              schema_names = [''i'', ''k'']\<rparr>"

definition ex_Ycol :: NamedTensor where
  "ex_Ycol = \<lparr>tensor = \<lparr>shape = [3, 4], elems = [1, 0, 0, 0, 1, 0, 0, 0, 1, 0, 0, 0]\<rparr>,
              schema_names = [''k'', ''j'']\<rparr>"

definition ex_scalar :: NamedTensor where
  "ex_scalar = \<lparr>tensor = \<lparr>shape = [], elems = [7]\<rparr>, schema_names = []\<rparr>"

definition ex_XY :: NamedTensor where
  "ex_XY = \<lparr>tensor = \<lparr>shape = [2, 4], elems = [1, 2, 3, 6, 4, 5, 6, 15]\<rparr>,
            schema_names = [''i'', ''j'']\<rparr>"

definition ex_T :: NamedTensor where
  "ex_T = \<lparr>tensor = \<lparr>shape = [2, 2], elems = [1, 2, 3, 4]\<rparr>, schema_names = [''a'', ''b'']\<rparr>"

definition ex_IX :: NamedTensor where
  "ex_IX = \<lparr>tensor = \<lparr>shape = [2, 1], elems = [1, 0]\<rparr>, schema_names = [''e'', ''d'']\<rparr>"

definition ex_IX2 :: NamedTensor where
  "ex_IX2 = \<lparr>tensor = \<lparr>shape = [3, 2], elems = [1, 0, 0, 1, 1, 1]\<rparr>,
             schema_names = [''e'', ''d'']\<rparr>"

definition ex_Tp :: NamedTensor where
  "ex_Tp = \<lparr>tensor = \<lparr>shape = [2, 2], elems = [1, 3, 2, 4]\<rparr>, schema_names = [''b'', ''a'']\<rparr>"

definition ex_I :: NamedTensor where
  "ex_I = \<lparr>tensor = \<lparr>shape = [2, 2], elems = [0, 0, 1, 0]\<rparr>, schema_names = [''a'', ''c'']\<rparr>"

definition ex_S :: NamedTensor where
  "ex_S = \<lparr>tensor = \<lparr>shape = [2, 2], elems = [10, 20, 30, 40]\<rparr>, schema_names = [''a'', ''c'']\<rparr>"

definition ex_XX :: NamedTensor where
  "ex_XX = \<lparr>tensor = \<lparr>shape = [2, 2, 3], elems = [1, 2, 3, 4, 5, 6, 1, 2, 3, 4, 5, 6]\<rparr>,
            schema_names = [''s'', ''i'', ''k'']\<rparr>"

definition ex_Xcat :: NamedTensor where
  "ex_Xcat = \<lparr>tensor = \<lparr>shape = [2, 6], elems = [1, 2, 3, 1, 2, 3, 4, 5, 6, 4, 5, 6]\<rparr>,
              schema_names = [''i'', ''k'']\<rparr>"

definition ex_G :: NamedTensor where
  "ex_G = \<lparr>tensor = \<lparr>shape = [2, 2], elems = [1, 1, 4, 3]\<rparr>, schema_names = [''a'', ''b'']\<rparr>"

definition ex_Tscattered :: NamedTensor where
  "ex_Tscattered = \<lparr>tensor = \<lparr>shape = [2, 2], elems = [20, 2, 40, 30]\<rparr>,
                    schema_names = [''a'', ''b'']\<rparr>"

definition ex_IX0 :: NamedTensor where
  "ex_IX0 = \<lparr>tensor = \<lparr>shape = [2, 0], elems = []\<rparr>, schema_names = [''e'', ''d'']\<rparr>"

definition ex_IX1 :: NamedTensor where
  "ex_IX1 = \<lparr>tensor = \<lparr>shape = [1, 0], elems = []\<rparr>, schema_names = [''e'', ''d'']\<rparr>"

definition ex_T2 :: NamedTensor where
  "ex_T2 = \<lparr>tensor = \<lparr>shape = [2, 2, 2], elems = [1, 2, 3, 4, 1, 2, 3, 4]\<rparr>,
            schema_names = [''e'', ''a'', ''b'']\<rparr>"

definition ex_T1 :: NamedTensor where
  "ex_T1 = \<lparr>tensor = \<lparr>shape = [1, 2, 2], elems = [1, 2, 3, 4]\<rparr>,
            schema_names = [''e'', ''a'', ''b'']\<rparr>"

section \<open>Verification of \<^verbatim>\<open>dot\<close>\<close>

subsection \<open>First-seen order and the loops of \<^verbatim>\<open>dot\<close>\<close>

lemma set_first_seen: "set (first_seen xs) = set xs"
  by (induction xs) auto

lemma distinct_first_seen: "distinct (first_seen xs)"
  by (induction xs) (auto simp: set_first_seen)


lemma first_seen_append:
  "first_seen (xs @ ys) = first_seen xs @ filter (\<lambda>y. y \<notin> set xs) (first_seen ys)"
proof (induction xs)
  case Nil
  show ?case by simp
next
  case (Cons x xs)
  have "filter (\<lambda>y. y \<noteq> x) (filter (\<lambda>y. y \<notin> set xs) (first_seen ys))
      = filter (\<lambda>y. y \<notin> set (x # xs)) (first_seen ys)"
    by (auto intro: filter_cong)
  with Cons show ?case by simp
qed

lemma index_of_append: "x \<in> set xs \<Longrightarrow> index_of (xs @ ys) x = index_of xs x"
  by (induction xs) auto

lemma index_of_fresh: "x \<notin> set xs \<Longrightarrow> index_of (xs @ x # ys) x = length xs"
  by (induction xs) auto

lemma map_of_zip_upt:
  "map_of (zip xs [k..<k + length xs]) x
     = (if x \<in> set xs then Some (k + index_of xs x) else None)"
proof (induction xs arbitrary: k)
  case Nil
  show ?case by simp
next
  case (Cons y ys)
  have "[k..<k + length (y # ys)] = k # [Suc k..<Suc k + length ys]"
    using upt_rec[of k "k + length (y # ys)"] by simp
  with Cons[of "Suc k"] show ?case by simp
qed

lemma map_of_enum:
  "map_of (zip xs [0..<length xs]) x = (if x \<in> set xs then Some (index_of xs x) else None)"
  using map_of_zip_upt[of xs 0 x] by simp

lemma dot_names_closed:
  assumes "ids = zip seen [0..<length seen]"
  shows "dot_names ns (ids, seen, grp) =
     (let seen' = seen @ filter (\<lambda>y. y \<notin> set seen) (first_seen ns)
      in (zip seen' [0..<length seen'], seen', grp @ map (index_of seen') ns))"
  using assms
proof (induction ns arbitrary: ids seen grp)
  case Nil
  then show ?case by simp
next
  case (Cons n rest)
  show ?case
  proof (cases "n \<in> set seen")
    case True
    have f: "filter (\<lambda>y. y \<notin> set seen) (filter (\<lambda>y. y \<noteq> n) (first_seen rest))
        = filter (\<lambda>y. y \<notin> set seen) (first_seen rest)"
      using True by (auto intro: filter_cong)
    have m: "map_of ids n = Some (index_of seen n)"
      using True Cons.prems by (simp only: map_of_enum if_True)
    have step: "dot_names (n # rest) (ids, seen, grp)
        = dot_names rest (ids, seen, grp @ [index_of seen n])"
      by (simp only: dot_names.simps m option.case)
    show ?thesis
      unfolding step Cons.IH[OF Cons.prems]
      using True f by (simp add: Let_def index_of_append)
  next
    case False
    have f: "filter (\<lambda>y. y \<notin> set seen) (filter (\<lambda>y. y \<noteq> n) (first_seen rest))
        = filter (\<lambda>y. y \<notin> set (seen @ [n])) (first_seen rest)"
      by (auto intro: filter_cong)
    have m: "map_of ids n = None"
      using False Cons.prems by (simp only: map_of_enum if_False)
    have i: "ids @ [(n, length ids)] = zip (seen @ [n]) [0..<length (seen @ [n])]"
      using Cons.prems by simp
    have l: "length ids = length seen"
      using Cons.prems by simp
    have step: "dot_names (n # rest) (ids, seen, grp)
        = dot_names rest (ids @ [(n, length ids)], seen @ [n], grp @ [length ids])"
      by (simp only: dot_names.simps m option.case)
    show ?thesis
      unfolding step Cons.IH[OF i]
      using False f l by (simp add: Let_def index_of_fresh)
  qed
qed

lemma dot_tensors_closed:
  assumes "ids = zip seen [0..<length seen]"
  shows "dot_tensors ts (args, ids, seen) =
     (let seen' = seen @ filter (\<lambda>y. y \<notin> set seen) (first_seen (concat (map schema_names ts)))
      in (args @ map (\<lambda>t. (tensor t, map (index_of seen') (schema_names t))) ts,
          zip seen' [0..<length seen'], seen'))"
  using assms
proof (induction ts arbitrary: args ids seen)
  case Nil
  then show ?case by simp
next
  case (Cons t ts)
  define seen1 where "seen1 = seen @ filter (\<lambda>y. y \<notin> set seen) (first_seen (schema_names t))"
  define rest where "rest = concat (map schema_names ts)"
  define seen2 where "seen2 = seen1 @ filter (\<lambda>y. y \<notin> set seen1) (first_seen rest)"
  have s1: "set seen1 = set seen \<union> set (schema_names t)"
    by (auto simp: seen1_def set_first_seen)
  have n: "dot_names (schema_names t) (ids, seen, []) =
      (zip seen1 [0..<length seen1], seen1, map (index_of seen1) (schema_names t))"
    using dot_names_closed[OF Cons.prems, of "schema_names t" "[]"]
    by (simp add: Let_def seen1_def)
  have e: "seen @ filter (\<lambda>y. y \<notin> set seen) (first_seen (schema_names t @ rest)) = seen2"
    unfolding seen2_def seen1_def
    by (auto simp: first_seen_append set_first_seen intro: filter_cong)
  have g: "map (index_of seen2) (schema_names t) = map (index_of seen1) (schema_names t)"
    unfolding seen2_def using s1 by (simp add: index_of_append)
  show ?case
    using Cons.IH[of "zip seen1 [0..<length seen1]" seen1
        "args @ [(tensor t, map (index_of seen1) (schema_names t))]"]
    by (simp add: n Let_def e g flip: rest_def seen2_def)
qed


lemma those_map_of_enum:
  "set keep \<subseteq> set seen \<Longrightarrow>
   those (map (map_of (zip seen [0..<length seen])) keep) = Some (map (index_of seen) keep)"
  by (induction keep) (simp_all add: map_of_enum)

lemma dot_program_closed:
  "dot_program names ts =
     (let seen = first_seen (concat (map schema_names ts));
          keep = filter (\<lambda>n. n \<notin> set names) seen
      in case find (\<lambda>n. n \<notin> set seen) names of
           Some n \<Rightarrow> Inl (NoContractDim n)
         | None \<Rightarrow> Inr (map (\<lambda>t. (tensor t, map (index_of seen) (schema_names t))) ts,
                        map (index_of seen) keep, keep))"
proof -
  define seen where "seen = first_seen (concat (map schema_names ts))"
  have t: "dot_tensors ts ([], [], []) =
      (map (\<lambda>t. (tensor t, map (index_of seen) (schema_names t))) ts,
       zip seen [0..<length seen], seen)"
    using dot_tensors_closed[of "[]" "[]" ts "[]"] by (simp add: Let_def seen_def)
  have k: "those (map (map_of (zip seen [0..<length seen])) (filter (\<lambda>n. n \<notin> set names) seen))
      = Some (map (index_of seen) (filter (\<lambda>n. n \<notin> set names) seen))"
    by (rule those_map_of_enum) auto
  show ?thesis
    unfolding dot_program_def t
    by (simp add: Let_def k flip: seen_def split: option.splits)
qed

lemma dot_run_closed:
  "dot_run E names ts =
     (let seen = first_seen (concat (map schema_names ts));
          keep = filter (\<lambda>n. n \<notin> set names) seen;
          args = map (\<lambda>t. (tensor t, map (index_of seen) (schema_names t))) ts;
          out = map (index_of seen) keep
      in case find (\<lambda>n. n \<notin> set seen) names of
           Some n \<Rightarrow> ([], Inl (NoContractDim n))
         | None \<Rightarrow> ([(args, out)], ebind (oe_contract E args out) (\<lambda>t. ntorch_tensor t keep)))"
  unfolding dot_run_def dot_program_closed
  by (simp add: Let_def split: option.splits)

lemma ntorch_tensor_names: "ntorch_tensor t ns = Inr r \<Longrightarrow> schema_names r = ns \<and> tensor r = t"
  by (auto simp: ntorch_tensor_def NamedTensor_init_def split: if_splits)

lemma ebind_Inr: "ebind m f = Inr r \<longleftrightarrow> (\<exists>x. m = Inr x \<and> f x = Inr r)"
  by (cases m) auto

text \<open>
  C1. \<^verbatim>\<open>dot\<close> walks the operands in argument order and each operand's names in schema
  order. After the loops, \<^verbatim>\<open>seen_names\<close> is the list of the distinct names in first-seen
  order, \<^verbatim>\<open>ids\<close> maps each of them to its position in that list (the next sequential
  id at the time it was first seen), and every operand is passed with the ids of its
  names. Whenever \<^verbatim>\<open>dot\<close> returns, the schema of the result is the first-seen list
  without the contracted names, whatever the backend; so two calls on the same operands
  in the same order give the same output axis order. When every contracted name was
  seen, the one call made to the backend passes exactly these operands with these ids,
  and as output ids those of the kept names.
\<close>

theorem dot_first_seen_order:
  assumes "seen = first_seen (concat (map schema_names tensors))"
  shows "dot_tensors tensors ([], [], []) =
           (map (\<lambda>t. (tensor t, map (index_of seen) (schema_names t))) tensors,
            zip seen [0..<length seen], seen)
       \<and> (dot E names tensors = Inr r \<longrightarrow>
            schema_names r = filter (\<lambda>n. n \<notin> set names) seen)
       \<and> (dot E names tensors = Inr r \<and> dot E' names tensors = Inr r' \<longrightarrow>
            schema_names r' = schema_names r)
       \<and> (set names \<subseteq> set seen \<longrightarrow>
            dot_calls E names tensors =
              [(map (\<lambda>t. (tensor t, map (index_of seen) (schema_names t))) tensors,
                map (index_of seen) (filter (\<lambda>n. n \<notin> set names) seen))])"
proof -
  have t: "dot_tensors tensors ([], [], []) =
      (map (\<lambda>t. (tensor t, map (index_of seen) (schema_names t))) tensors,
       zip seen [0..<length seen], seen)"
    using dot_tensors_closed[of "[]" "[]" tensors "[]"] by (simp add: Let_def assms)
  have s: "schema_names x = filter (\<lambda>n. n \<notin> set names) seen"
    if "dot F names tensors = Inr x" for F x
    using that unfolding dot_def dot_run_closed
    by (auto simp: Let_def assms ebind_Inr split: option.splits dest: ntorch_tensor_names)
  have c: "dot_calls E names tensors =
      [(map (\<lambda>t. (tensor t, map (index_of seen) (schema_names t))) tensors,
        map (index_of seen) (filter (\<lambda>n. n \<notin> set names) seen))]"
    if "set names \<subseteq> set seen"
  proof -
    have "find (\<lambda>n. n \<notin> set seen) names = None"
      using that by (auto simp: find_None_iff)
    then show ?thesis
      unfolding dot_calls_def dot_run_closed by (simp add: Let_def assms)
  qed
  show ?thesis
    using t s[of E r] s[of E' r'] c by simp
qed

theorem dot_first_seen_order_witness:
  "[''i'', ''k'', ''j''] = first_seen (concat (map schema_names [ex_X, ex_Y]))
   \<and> dot ref_engine [''k''] [ex_X, ex_Y] = Inr ex_XY
   \<and> schema_names ex_XY = filter (\<lambda>n. n \<notin> set [''k'']) [''i'', ''k'', ''j'']"
proof -
  have h: "[''i'', ''k'', ''j''] = first_seen (concat (map schema_names [ex_X, ex_Y]))"
    by (simp add: ex_X_def ex_Y_def)
  have d: "dot ref_engine [''k''] [ex_X, ex_Y] = Inr ex_XY"
    by code_simp
  from dot_first_seen_order[OF h, of ref_engine "[''k'']" ex_XY ref_engine ex_XY]
  have "dot ref_engine [''k''] [ex_X, ex_Y] = Inr ex_XY \<longrightarrow>
        schema_names ex_XY = filter (\<lambda>n. n \<notin> set [''k'']) [''i'', ''k'', ''j'']"
    by blast
  then show ?thesis
    using h d by blast
qed

text \<open>
  C3. If some name of \<^verbatim>\<open>contract_names\<close> occurs in no operand's schema, \<^verbatim>\<open>dot\<close> raises
  the error that carries the first such name, and the list of calls made to the
  contraction backend is empty: the error is raised before anything is dispatched.
\<close>

theorem dot_unknown_contraction_dim:
  assumes "\<not> set names \<subseteq> set (concat (map schema_names tensors))"
  shows "\<exists>n. find (\<lambda>n. n \<notin> set (concat (map schema_names tensors))) names = Some n
           \<and> n \<in> set names \<and> n \<notin> set (concat (map schema_names tensors))
           \<and> dot E names tensors = Inl (NoContractDim n)
           \<and> dot_calls E names tensors = []"
proof -
  let ?P = "\<lambda>n. n \<notin> set (concat (map schema_names tensors))"
  obtain n where n: "find ?P names = Some n"
    using assms by (cases "find ?P names") (auto simp: find_None_iff)
  then have "n \<in> set names" "?P n"
    by (auto simp: find_Some_iff)
  moreover have "dot_run E names tensors = ([], Inl (NoContractDim n))"
    unfolding dot_run_closed using n by (simp add: Let_def set_first_seen)
  ultimately show ?thesis
    using n by (simp add: dot_def dot_calls_def)
qed

theorem dot_unknown_contraction_dim_witness:
  "\<not> set [''z''] \<subseteq> set (concat (map schema_names [ex_X, ex_Y]))
   \<and> dot ref_engine [''z''] [ex_X, ex_Y] = Inl (NoContractDim ''z'')
   \<and> dot_calls ref_engine [''z''] [ex_X, ex_Y] = []"
proof -
  have h: "\<not> set [''z''] \<subseteq> set (concat (map schema_names [ex_X, ex_Y]))"
    by (simp add: ex_X_def ex_Y_def)
  from dot_unknown_contraction_dim[OF h, of ref_engine] show ?thesis
    using h by auto
qed


subsection \<open>Matrix product\<close>

lemma length6: "length xs = 6 \<Longrightarrow> \<exists>a b c d e f. xs = [a, b, c, d, e, f]"
  by (auto simp: numeral_eq_Suc length_Suc_conv)

lemma length12:
  "length xs = 12 \<Longrightarrow> \<exists>a b c d e f g h i j k l. xs = [a, b, c, d, e, f, g, h, i, j, k, l]"
  by (auto simp: numeral_eq_Suc length_Suc_conv)

lemma matmul_program:
  assumes "schema_names X = [''i'', ''k'']" and "schema_names Y = [''k'', ''j'']"
  shows "dot_run E [''k''] [X, Y] =
     ([([(tensor X, [0, 1]), (tensor Y, [1, 2])], [0, 2])],
      ebind (oe_contract E [(tensor X, [0, 1]), (tensor Y, [1, 2])] [0, 2])
        (\<lambda>t. ntorch_tensor t [''i'', ''j'']))"
  unfolding dot_run_closed by (simp add: assms Let_def numeral_2_eq_2)

lemma ref_contract_matmul:
  "ref_contract
     [(\<lparr>shape = [2, 3], elems = [x0, x1, x2, x3, x4, x5]\<rparr>, [0, Suc 0]),
      (\<lparr>shape = [3, 4], elems = [y0, y1, y2, y3, y4, y5, y6, y7, y8, y9, y10, y11]\<rparr>, [Suc 0, 2])]
     [0, 2]
   = Inr \<lparr>shape = [2, 4],
          elems = [x0 * y0 + x1 * y4 + x2 * y8, x0 * y1 + x1 * y5 + x2 * y9,
                   x0 * y2 + x1 * y6 + x2 * y10, x0 * y3 + x1 * y7 + x2 * y11,
                   x3 * y0 + x4 * y4 + x5 * y8, x3 * y1 + x4 * y5 + x5 * y9,
                   x3 * y2 + x4 * y6 + x5 * y10, x3 * y3 + x4 * y7 + x5 * y11]\<rparr>"
  by (simp add: ref_contract_def build_def at_def lookup0_def Let_def upt_conv_Cons)


lemma all_less_2: "(\<forall>i<2::nat. P i) \<longleftrightarrow> P 0 \<and> P 1"
  by (auto simp: numeral_2_eq_2 less_Suc_eq)

lemma all_less_4: "(\<forall>i<4::nat. P i) \<longleftrightarrow> P 0 \<and> P 1 \<and> P 2 \<and> P 3"
proof -
  have "i < 4 \<longleftrightarrow> i = 0 \<or> i = 1 \<or> i = 2 \<or> i = 3" for i :: nat
    by arith
  then show ?thesis by auto
qed

lemma sum_less_3: "(\<Sum>k<3::nat. f k) = f 0 + f 1 + (f 2 :: 'a::comm_monoid_add)"
  by (simp add: numeral_3_eq_3 lessThan_Suc numeral_2_eq_2 add.commute add.left_commute)

text \<open>
  C2. With \<open>X\<close> named \<open>(i, k)\<close> of shape \<open>(2, 3)\<close> and \<open>Y\<close> named \<open>(k, j)\<close> of shape
  \<open>(3, 4)\<close>, both of 64-bit integers, \<^verbatim>\<open>dot(("k",), X, Y)\<close> on the reference engine
  returns a tensor named \<open>(i, j)\<close> of shape \<open>(2, 4)\<close> whose entry at \<open>[i, j]\<close> is the sum
  over \<open>k\<close> of \<open>X[i, k] * Y[k, j]\<close>, the matrix product in the arithmetic of the
  elements: sums and products wrap around modulo \<open>2 ^ 64\<close>, as they do in the
  standard matrix product of two such tensors.
\<close>

theorem dot_matrix_product:
  assumes "schema_names X = [''i'', ''k'']" and "shape (tensor X) = [2, 3]"
      and "length (elems (tensor X)) = 6"
      and "schema_names Y = [''k'', ''j'']" and "shape (tensor Y) = [3, 4]"
      and "length (elems (tensor Y)) = 12"
  shows "\<exists>r. dot ref_engine [''k''] [X, Y] = Inr r
           \<and> schema_names r = [''i'', ''j'']
           \<and> shape (tensor r) = [2, 4]
           \<and> (\<forall>i<2. \<forall>j<4. at (tensor r) [i, j]
                 = (\<Sum>k<3. at (tensor X) [i, k] * at (tensor Y) [k, j]))"
proof -
  obtain x0 x1 x2 x3 x4 x5 where x: "elems (tensor X) = [x0, x1, x2, x3, x4, x5]"
    using length6[OF assms(3)] by blast
  obtain y0 y1 y2 y3 y4 y5 y6 y7 y8 y9 y10 y11
    where y: "elems (tensor Y) = [y0, y1, y2, y3, y4, y5, y6, y7, y8, y9, y10, y11]"
    using length12[OF assms(6)] by blast
  have tx: "tensor X = \<lparr>shape = [2, 3], elems = [x0, x1, x2, x3, x4, x5]\<rparr>"
    using assms(2) x by (cases "tensor X") simp
  have ty: "tensor Y = \<lparr>shape = [3, 4], elems = [y0, y1, y2, y3, y4, y5, y6, y7, y8, y9, y10, y11]\<rparr>"
    using assms(5) y by (cases "tensor Y") simp
  define r where "r = \<lparr>tensor = \<lparr>shape = [2, 4],
          elems = [x0 * y0 + x1 * y4 + x2 * y8, x0 * y1 + x1 * y5 + x2 * y9,
                   x0 * y2 + x1 * y6 + x2 * y10, x0 * y3 + x1 * y7 + x2 * y11,
                   x3 * y0 + x4 * y4 + x5 * y8, x3 * y1 + x4 * y5 + x5 * y9,
                   x3 * y2 + x4 * y6 + x5 * y10, x3 * y3 + x4 * y7 + x5 * y11]\<rparr>,
        schema_names = [''i'', ''j'']\<rparr>"
  have d: "dot ref_engine [''k''] [X, Y] = Inr r"
    unfolding dot_def matmul_program[OF assms(1) assms(4)] tx ty
    by (simp add: ref_engine_def ref_contract_matmul ntorch_tensor_def NamedTensor_init_def r_def)
  have e: "\<forall>i<2. \<forall>j<4. at (tensor r) [i, j]
      = (\<Sum>k<3. at (tensor X) [i, k] * at (tensor Y) [k, j])"
    unfolding all_less_2 all_less_4 sum_less_3 tx ty
    by (simp add: r_def at_def)
  show ?thesis
    using d e by (intro exI[of _ r]) (simp add: r_def)
qed

theorem dot_matrix_product_witness:
  "schema_names ex_X = [''i'', ''k''] \<and> shape (tensor ex_X) = [2, 3]
   \<and> length (elems (tensor ex_X)) = 6
   \<and> schema_names ex_Y = [''k'', ''j''] \<and> shape (tensor ex_Y) = [3, 4]
   \<and> length (elems (tensor ex_Y)) = 12
   \<and> (\<exists>r. dot ref_engine [''k''] [ex_X, ex_Y] = Inr r
         \<and> schema_names r = [''i'', ''j''] \<and> shape (tensor r) = [2, 4]
         \<and> at (tensor r) [1, 3] = 15)"
proof -
  have h: "schema_names ex_X = [''i'', ''k'']" "shape (tensor ex_X) = [2, 3]"
          "length (elems (tensor ex_X)) = 6"
          "schema_names ex_Y = [''k'', ''j'']" "shape (tensor ex_Y) = [3, 4]"
          "length (elems (tensor ex_Y)) = 12"
    by (simp_all add: ex_X_def ex_Y_def)
  from dot_matrix_product[OF h] obtain r where
    r: "dot ref_engine [''k''] [ex_X, ex_Y] = Inr r" "schema_names r = [''i'', ''j'']"
       "shape (tensor r) = [2, 4]"
    and e: "\<forall>i<2. \<forall>j<4. at (tensor r) [i, j]
              = (\<Sum>k<3. at (tensor ex_X) [i, k] * at (tensor ex_Y) [k, j])"
    by blast
  have "at (tensor r) [1, 3] = (\<Sum>k<3. at (tensor ex_X) [1, k] * at (tensor ex_Y) [k, 3])"
    using e by simp
  also have "\<dots> = 15"
    unfolding sum_less_3 by (simp add: at_def ex_X_def ex_Y_def)
  finally have "at (tensor r) [1, 3] = 15" .
  with h r show ?thesis by blast
qed

text \<open>
  The sum wraps: with \<open>2 ^ 62\<close> twice in the first row of \<open>X\<close> and a first column of
  ones in \<open>Y\<close>, the entry at \<open>[0, 0]\<close> reads \<open>- (2 ^ 63)\<close>.
\<close>

lemma dot_matrix_product_wraps:
  "\<exists>r. dot ref_engine [''k''] [ex_Xbig, ex_Ycol] = Inr r
     \<and> sint (at (tensor r) [0, 0]) = - (2 ^ 63)"
proof -
  have "dot ref_engine [''k''] [ex_Xbig, ex_Ycol]
      = Inr \<lparr>tensor = \<lparr>shape = [2, 4], elems = [2 ^ 63, 0, 0, 0, 0, 0, 0, 0]\<rparr>,
             schema_names = [''i'', ''j'']\<rparr>"
    by code_simp
  moreover have "sint (2 ^ 63 :: 64 word) = - (2 ^ 63)"
    by code_simp
  ultimately show ?thesis
    by (simp add: at_def)
qed

section \<open>Verification of \<^verbatim>\<open>stack\<close> and \<^verbatim>\<open>cat\<close>\<close>

lemma NamedTensor_init_Inr:
  "NamedTensor_init t ns = Inr r \<longleftrightarrow>
     distinct ns \<and> length ns = length (shape t) \<and> r = \<lparr>tensor = t, schema_names = ns\<rparr>"
  by (auto simp: NamedTensor_init_def)

lemma emap_rename_Nil: "emap (rename []) ns = Inr ns"
  by (induction ns) simp_all

lemma new_no_updates: "new self t [] = NamedTensor_init t (schema_names self)"
  by (simp add: new_def emap_rename_Nil)

text \<open>
  C5. On a non-empty list, \<^verbatim>\<open>stack\<close> raises its mismatch error as soon as one operand's
  name sequence differs from the first operand's; a reordering of the same names is a
  different sequence. Whenever it returns, all operands had the first operand's name
  sequence, the tensor of the result is what the engine's stack along axis 0 returned,
  and the schema is the new name followed by the shared names in their order.
\<close>

theorem stack_matching_names:
  assumes "tensors = t0 # rest"
  shows "((\<exists>t \<in> set rest. schema_names t \<noteq> schema_names t0) \<longrightarrow>
            stack E tensors n = Inl StackMismatch)
       \<and> (stack E tensors n = Inr r \<longrightarrow>
            (\<forall>t \<in> set tensors. schema_names t = schema_names t0)
            \<and> torch_stack E (map tensor tensors) 0 = Inr (tensor r)
            \<and> schema_names r = n # schema_names t0)"
  unfolding stack_def assms
  by (auto simp: Let_def ebind_Inr ntorch_tensor_def NamedTensor_init_Inr)

theorem stack_matching_names_witness:
  "[ex_X, ex_X] = ex_X # [ex_X]
   \<and> stack ref_engine [ex_X, ex_X] ''s'' = Inr ex_XX
   \<and> schema_names ex_XX = ''s'' # schema_names ex_X
   \<and> torch_stack ref_engine (map tensor [ex_X, ex_X]) 0 = Inr (tensor ex_XX)
   \<and> (\<exists>t \<in> set [ex_Y]. schema_names t \<noteq> schema_names ex_X)
   \<and> stack ref_engine [ex_X, ex_Y] ''s'' = Inl StackMismatch"
proof -
  have s: "stack ref_engine [ex_X, ex_X] ''s'' = Inr ex_XX"
    by code_simp
  have m: "\<exists>t \<in> set [ex_Y]. schema_names t \<noteq> schema_names ex_X"
    by (simp add: ex_X_def ex_Y_def)
  from stack_matching_names[of "[ex_X, ex_X]" ex_X "[ex_X]" ref_engine "''s''" ex_XX] s
  have a: "schema_names ex_XX = ''s'' # schema_names ex_X
           \<and> torch_stack ref_engine (map tensor [ex_X, ex_X]) 0 = Inr (tensor ex_XX)"
    by blast
  from stack_matching_names[of "[ex_X, ex_Y]" ex_X "[ex_Y]" ref_engine "''s''" ex_XX] m
  have b: "stack ref_engine [ex_X, ex_Y] ''s'' = Inl StackMismatch"
    by blast
  from s m a b show ?thesis by blast
qed

text \<open>
  C4, as amended. \<^verbatim>\<open>cat\<close> resolves \<^verbatim>\<open>dim\<close> once, in the schema of the first operand,
  and asserts that every other operand has exactly the first operand's name sequence.
  With \<^verbatim>\<open>dim\<close> a name of the first operand: if some operand's name sequence differs
  (also by order only), the assertion fails; if all are equal, the result is the
  engine's concatenation of the operands' tensors along that one axis position, wrapped
  with the first operand's schema.
\<close>

theorem cat_same_name_sequence:
  assumes "tensors = t0 # rest" and "dim \<in> set (schema_names t0)"
  shows "((\<exists>t \<in> set rest. schema_names t \<noteq> schema_names t0) \<longrightarrow>
            cat E tensors dim = Inl AssertionError)
       \<and> ((\<forall>t \<in> set rest. schema_names t = schema_names t0) \<longrightarrow>
            cat E tensors dim =
              ebind (torch_cat E (map tensor tensors) (index_of (schema_names t0) dim))
                (\<lambda>r. NamedTensor_init r (schema_names t0)))"
  unfolding cat_def assms(1)
  using assms(2) by (auto simp: schema_get_def new_no_updates)

theorem cat_same_name_sequence_witness:
  "[ex_X, ex_X] = ex_X # [ex_X] \<and> ''k'' \<in> set (schema_names ex_X)
   \<and> cat ref_engine [ex_X, ex_X] ''k'' = Inr ex_Xcat
   \<and> ebind (torch_cat ref_engine (map tensor [ex_X, ex_X]) (index_of (schema_names ex_X) ''k''))
        (\<lambda>r. NamedTensor_init r (schema_names ex_X)) = Inr ex_Xcat"
proof -
  have k: "''k'' \<in> set (schema_names ex_X)"
    by (simp add: ex_X_def)
  have c: "cat ref_engine [ex_X, ex_X] ''k'' = Inr ex_Xcat"
    by code_simp
  from cat_same_name_sequence[of "[ex_X, ex_X]" ex_X "[ex_X]" "''k''" ref_engine] k
  have "cat ref_engine [ex_X, ex_X] ''k'' =
      ebind (torch_cat ref_engine (map tensor [ex_X, ex_X]) (index_of (schema_names ex_X) ''k''))
        (\<lambda>r. NamedTensor_init r (schema_names ex_X))"
    by simp
  with k c show ?thesis by simp
qed

text \<open>
  The claim as stated fails: two operands with the same set of names in different
  physical orders do not reach the concatenation.
\<close>

theorem cat_reordered_names_counterexample:
  "set (schema_names ex_Tp) = set (schema_names ex_T)
   \<and> cat ref_engine [ex_T, ex_Tp] ''a'' = Inl AssertionError"
  by code_simp

section \<open>Verification of \<^verbatim>\<open>gather\<close> and \<^verbatim>\<open>scatter_\<close>\<close>

text \<open>
  C7. If force-ordering \<^verbatim>\<open>index\<close> or \<^verbatim>\<open>src\<close> fails, \<^verbatim>\<open>input\<close> is unchanged and the
  call raises. In every case the schema of \<^verbatim>\<open>input\<close> after the call is its schema
  before. When the call returns, both operands were force-ordered, \<^verbatim>\<open>dim\<close> was
  resolved in \<^verbatim>\<open>input\<close>, and \<^verbatim>\<open>input\<close> differs from before only in its tensor, which is
  what the engine's in-place scatter left; the value returned is \<^verbatim>\<open>None\<close>, not a
  NamedTensor.
\<close>

theorem scatter_inplace_frame:
  "(((\<exists>e. force_order E index (index_order input dim index_dim) = Inl e)
      \<or> (\<exists>e. force_order E src (index_order input dim index_dim) = Inl e)) \<longrightarrow>
        fst (scatter_inplace E input dim index src index_dim) = input
        \<and> (\<exists>e. snd (scatter_inplace E input dim index src index_dim) = Inl e))
   \<and> schema_names (fst (scatter_inplace E input dim index src index_dim)) = schema_names input
   \<and> (snd (scatter_inplace E input dim index src index_dim) = Inr () \<longrightarrow>
        (\<exists>index_force src_force d.
           force_order E index (index_order input dim index_dim) = Inr index_force
         \<and> force_order E src (index_order input dim index_dim) = Inr src_force
         \<and> schema_get input dim = Inr d
         \<and> fst (scatter_inplace E input dim index src index_dim)
             = input\<lparr>tensor := fst (torch_scatter_inplace E (tensor input) d
                                      (tensor index_force) (tensor src_force))\<rparr>))"
  unfolding scatter_inplace_def
  by (auto split: sum.splits prod.splits)

theorem scatter_inplace_frame_witness:
  "(\<exists>e. force_order ref_engine ex_T (index_order ex_T ''b'' ''c'') = Inl e)
   \<and> fst (scatter_inplace ref_engine ex_T ''b'' ex_I ex_T ''c'') = ex_T
   \<and> snd (scatter_inplace ref_engine ex_T ''b'' ex_I ex_S ''c'') = Inr ()
   \<and> fst (scatter_inplace ref_engine ex_T ''b'' ex_I ex_S ''c'') = ex_Tscattered
   \<and> schema_names ex_Tscattered = schema_names ex_T"
proof -
  have f: "force_order ref_engine ex_T (index_order ex_T ''b'' ''c'') = Inl SchemaMismatchError"
    by code_simp
  have s: "snd (scatter_inplace ref_engine ex_T ''b'' ex_I ex_S ''c'') = Inr ()"
          "fst (scatter_inplace ref_engine ex_T ''b'' ex_I ex_S ''c'') = ex_Tscattered"
    by code_simp+
  from scatter_inplace_frame[where E = ref_engine and input = ex_T and dim = "''b''"
      and index = ex_I and src = ex_T and index_dim = "''c''"] f
  have a: "fst (scatter_inplace ref_engine ex_T ''b'' ex_I ex_T ''c'') = ex_T"
    by blast
  from scatter_inplace_frame[where E = ref_engine and input = ex_T and dim = "''b''"
      and index = ex_I and src = ex_S and index_dim = "''c''"] s
  have b: "schema_names ex_Tscattered = schema_names ex_T"
    by simp
  from f s a b show ?thesis by blast
qed

text \<open>
  The dict that \<^verbatim>\<open>gather\<close> passes to \<^verbatim>\<open>_new\<close> has the NamedTensor \<^verbatim>\<open>index\<close> as its
  only value, so no name of the schema is ever replaced by a name: whenever \<^verbatim>\<open>gather\<close>
  returns, the result has the schema of \<^verbatim>\<open>input\<close>.
\<close>

lemma emap_rename_tensor:
  "emap (rename [(k, PyNamedTensor v)]) ns = Inr ms \<Longrightarrow> ms = ns"
proof (induction ns arbitrary: ms)
  case Nil
  then show ?case by simp
next
  case (Cons n ns)
  then show ?case
    by (auto simp: ebind_Inr split: if_splits)
qed

lemma gather_schema_unchanged:
  "gather E input dim index index_dim = Inr r \<Longrightarrow> schema_names r = schema_names input"
  unfolding gather_def new_def
  by (auto simp: ebind_Inr NamedTensor_init_Inr dest: emap_rename_tensor)

text \<open>
  C6. The claim asks for the gathered axis to be renamed to \<^verbatim>\<open>index_dim\<close>. On an input
  named \<open>(a, b)\<close>, gathering along \<open>b\<close> with an index named \<open>(a, c)\<close> and
  \<^verbatim>\<open>index_dim = c\<close>, the index is force-ordered and the positional gather is issued at
  position 1 as the claim says, but the result is still named \<open>(a, b)\<close>, not
  \<open>(a, c)\<close>.
\<close>

theorem gather_keeps_dim_name:
  "''b'' \<in> set (schema_names ex_T)
   \<and> gather ref_engine ex_T ''b'' ex_I ''c'' = Inr ex_G
   \<and> schema_names ex_G = [''a'', ''b'']
   \<and> schema_names ex_G \<noteq> [''a'', ''c'']"
  by code_simp

section \<open>Verification of \<^verbatim>\<open>multi_index_select\<close>\<close>

lemma card_set_less: "card (set xs) < length xs \<longleftrightarrow> \<not> distinct xs"
  using card_distinct[of xs] distinct_card[of xs] card_length[of xs] by fastforce

lemma second_axis_size:
  assumes "schema_names indices = elements_dim # index_dim # others"
      and "shape (tensor indices) = n # sz # sh"
      and "elements_dim \<noteq> index_dim"
  shows "map_of (nt_shape indices) index_dim = Some sz"
  using assms by (simp add: nt_shape_def)

text \<open>
  C10. With \<^verbatim>\<open>indices\<close> of at least two named axes, the second of size \<open>sz\<close>, the
  checks run in this order: the size of the second axis against \<^verbatim>\<open>len(dims)\<close>, then
  \<^verbatim>\<open>len(dims)\<close> against the rank of the tensor, then duplicates in \<^verbatim>\<open>dims\<close>, then the
  first name of \<^verbatim>\<open>dims\<close> that is not in the schema. Each error is raised exactly when
  all earlier checks pass and its own fails, so an earlier violation masks a later one;
  when all four pass the selection itself runs.
\<close>

theorem multi_index_select_check_order:
  assumes "schema_names indices = elements_dim # index_dim # others"
      and "shape (tensor indices) = n # sz # sh"
      and "elements_dim \<noteq> index_dim"
  shows "(length dims \<noteq> sz \<longrightarrow>
            multi_index_select E tens dims indices = Inl (SizeMismatch (length dims) sz))
       \<and> (length dims = sz \<and> length (nt_shape tens) < length dims \<longrightarrow>
            multi_index_select E tens dims indices
              = Inl (RankInsufficient (length (nt_shape tens)) (length dims)))
       \<and> (length dims = sz \<and> length dims \<le> length (nt_shape tens) \<and> \<not> distinct dims \<longrightarrow>
            multi_index_select E tens dims indices = Inl DuplicateDims)
       \<and> (length dims = sz \<and> length dims \<le> length (nt_shape tens) \<and> distinct dims
            \<and> find (\<lambda>dim. dim \<notin> set (schema_names tens)) dims = Some d \<longrightarrow>
            multi_index_select E tens dims indices = Inl (NotADimension d))
       \<and> (length dims = sz \<and> length dims \<le> length (nt_shape tens) \<and> distinct dims
            \<and> set dims \<subseteq> set (schema_names tens) \<longrightarrow>
            multi_index_select E tens dims indices
              = select_rows E tens dims indices elements_dim)"
proof -
  have s: "map_of (nt_shape indices) index_dim = Some sz"
    using assms by (rule second_axis_size)
  have f: "find (\<lambda>dim. dim \<notin> set (schema_names tens)) dims = None"
    if "set dims \<subseteq> set (schema_names tens)"
    using that by (auto simp: find_None_iff)
  show ?thesis
    unfolding multi_index_select_def
    using f by (auto simp: assms(1) s card_set_less)
qed

theorem multi_index_select_check_order_witness:
  "schema_names ex_IX = ''e'' # ''d'' # [] \<and> shape (tensor ex_IX) = 2 # 1 # [] \<and> ''e'' \<noteq> ''d''
   \<and> length [''b'', ''b''] \<noteq> 1
   \<and> multi_index_select ref_engine ex_T [''b'', ''b''] ex_IX
       = Inl (SizeMismatch (length [''b'', ''b'']) 1)"
proof -
  have h: "schema_names ex_IX = ''e'' # ''d'' # []" "shape (tensor ex_IX) = 2 # 1 # []"
          "''e'' \<noteq> ''d''"
    by (simp_all add: ex_IX_def)
  have l: "length [''b'', ''b''] \<noteq> 1"
    by simp
  from multi_index_select_check_order[OF h, of "[''b'', ''b'']" ref_engine ex_T] l
  have "multi_index_select ref_engine ex_T [''b'', ''b''] ex_IX
       = Inl (SizeMismatch (length [''b'', ''b'']) 1)"
    by blast
  with h l show ?thesis by blast
qed

text \<open>
  C8, as amended. A call whose \<^verbatim>\<open>dims\<close> contains a duplicate always fails and never
  deduplicates; the error is the duplicate-dims error, whose message is fixed and names
  no value, when the two earlier checks pass (the second axis of \<^verbatim>\<open>indices\<close> has size
  \<^verbatim>\<open>len(dims)\<close> and \<^verbatim>\<open>len(dims)\<close> is at most the rank). Otherwise it is the error of
  the earlier check: the size error when the second axis has another size, else the
  rank error when \<^verbatim>\<open>len(dims)\<close> exceeds the rank.
\<close>

theorem multi_index_select_duplicate_dims:
  assumes "\<not> distinct dims"
  shows "(\<exists>e. multi_index_select E tens dims indices = Inl e)
       \<and> (\<forall>elements_dim index_dim others.
            schema_names indices = elements_dim # index_dim # others
            \<and> map_of (nt_shape indices) index_dim = Some (length dims)
            \<and> length dims \<le> length (nt_shape tens) \<longrightarrow>
            multi_index_select E tens dims indices = Inl DuplicateDims)
       \<and> (\<forall>elements_dim index_dim others sz.
            schema_names indices = elements_dim # index_dim # others
            \<and> map_of (nt_shape indices) index_dim = Some sz
            \<and> length dims \<noteq> sz \<longrightarrow>
            multi_index_select E tens dims indices = Inl (SizeMismatch (length dims) sz))
       \<and> (\<forall>elements_dim index_dim others.
            schema_names indices = elements_dim # index_dim # others
            \<and> map_of (nt_shape indices) index_dim = Some (length dims)
            \<and> length (nt_shape tens) < length dims \<longrightarrow>
            multi_index_select E tens dims indices
              = Inl (RankInsufficient (length (nt_shape tens)) (length dims)))"
  using assms unfolding multi_index_select_def
  by (auto simp: card_set_less split: list.splits option.splits)

theorem multi_index_select_duplicate_dims_witness:
  "\<not> distinct [''b'', ''b'']
   \<and> schema_names ex_IX2 = ''e'' # ''d'' # []
   \<and> map_of (nt_shape ex_IX2) ''d'' = Some (length [''b'', ''b''])
   \<and> length [''b'', ''b''] \<le> length (nt_shape ex_T)
   \<and> multi_index_select ref_engine ex_T [''b'', ''b''] ex_IX2 = Inl DuplicateDims"
proof -
  have h: "\<not> distinct [''b'', ''b'']"
    by simp
  have g: "schema_names ex_IX2 = ''e'' # ''d'' # []"
          "map_of (nt_shape ex_IX2) ''d'' = Some (length [''b'', ''b''])"
          "length [''b'', ''b''] \<le> length (nt_shape ex_T)"
    by (simp_all add: ex_IX2_def ex_T_def nt_shape_def)
  from multi_index_select_duplicate_dims[OF h, of ref_engine ex_T ex_IX2] g
  have "multi_index_select ref_engine ex_T [''b'', ''b''] ex_IX2 = Inl DuplicateDims"
    by blast
  with h g show ?thesis by blast
qed

text \<open>
  The claim as stated fails: with duplicate \<^verbatim>\<open>dims\<close> and a second axis of another
  size, the error is the size error.
\<close>

theorem multi_index_select_duplicate_dims_counterexample:
  "\<not> distinct [''b'', ''b'']
   \<and> multi_index_select ref_engine ex_T [''b'', ''b''] ex_IX = Inl (SizeMismatch 2 1)
   \<and> multi_index_select ref_engine ex_T [''b'', ''b''] ex_IX \<noteq> Inl DuplicateDims"
  by code_simp


subsection \<open>Selection with no dimension names\<close>

text \<open>
  Facts of the reference engine: the enumeration of all index tuples of a shape reads a
  row-major tensor in the order of its elements, so the identity permutation returns
  the tensor itself.
\<close>

lemma index_of_nth: "distinct xs \<Longrightarrow> i < length xs \<Longrightarrow> index_of xs (xs ! i) = i"
proof (induction xs arbitrary: i)
  case Nil
  then show ?case by simp
next
  case (Cons x xs)
  then show ?case by (cases i) auto
qed

lemma index_of_upt: "a < n \<Longrightarrow> index_of [0..<n] a = a"
  using index_of_nth[of "[0..<n]" a] by simp

lemma length_all_idx: "idx \<in> set (all_idx sh) \<Longrightarrow> length idx = length sh"
  by (induction sh arbitrary: idx) auto

lemma concat_chunks:
  "concat (map (\<lambda>i. take p (drop (k + i * p) xs)) [0..<n]) = take (n * p) (drop k xs)"
proof (induction n)
  case 0
  show ?case by simp
next
  case (Suc n)
  have "take (n * p + p) (drop k xs)
      = take (n * p) (drop k xs) @ take p (drop (n * p) (drop k xs))"
    by (rule take_add)
  also have "drop (n * p) (drop k xs) = drop (k + n * p) xs"
    by (simp add: add.commute)
  finally have "take (Suc n * p) (drop k xs)
      = take (n * p) (drop k xs) @ take p (drop (k + n * p) xs)"
    by (simp add: add.commute)
  with Suc show ?case by simp
qed

lemma map_offset_all_idx:
  "k + prod_list sh \<le> length xs \<Longrightarrow>
   map (\<lambda>idx. xs ! (k + offset sh idx)) (all_idx sh) = take (prod_list sh) (drop k xs)"
proof (induction sh arbitrary: k)
  case Nil
  then have "k < length xs" by simp
  then show ?case
    by (simp add: take_Suc_conv_app_nth[of 0] hd_drop_conv_nth take_Suc)
next
  case (Cons n sh)
  have row: "map (\<lambda>idx. xs ! (k + offset (n # sh) idx)) (map ((#) i) (all_idx sh))
      = take (prod_list sh) (drop (k + i * prod_list sh) xs)" if "i < n" for i
  proof -
    have "i * prod_list sh + prod_list sh \<le> n * prod_list sh"
      using that by (metis Suc_leI mult_Suc mult_le_mono1 add.commute)
    then have "(k + i * prod_list sh) + prod_list sh \<le> length xs"
      using Cons.prems by simp
    from Cons.IH[OF this] show ?thesis
      by (simp add: comp_def add.assoc)
  qed
  have "map (\<lambda>i. map (\<lambda>idx. xs ! (k + offset (n # sh) idx)) (map ((#) i) (all_idx sh))) [0..<n]
      = map (\<lambda>i. take (prod_list sh) (drop (k + i * prod_list sh) xs)) [0..<n]"
    by (rule map_cong) (simp_all only: row atLeastLessThan_iff set_upt)
  then have "map (\<lambda>idx. xs ! (k + offset (n # sh) idx)) (all_idx (n # sh))
      = concat (map (\<lambda>i. take (prod_list sh) (drop (k + i * prod_list sh) xs)) [0..<n])"
    by (simp only: all_idx.simps map_concat map_map comp_def)
  then show ?case
    by (simp add: concat_chunks)
qed

lemma map_at_all_idx: "wf_raw t \<Longrightarrow> map (at t) (all_idx (shape t)) = elems t"
  using map_offset_all_idx[of 0 "shape t" "elems t"]
  by (simp add: wf_raw_def at_def[abs_def])

lemma ref_permute_identity:
  assumes "wf_raw t" and "shape t \<noteq> []"
  shows "ref_permute t [0..<length (shape t)] = Inr t"
proof -
  let ?n = "length (shape t)"
  have "map (\<lambda>a. idx ! index_of [0..<?n] a) [0..<?n] = idx"
    if "idx \<in> set (all_idx (shape t))" for idx
  proof -
    have "map (\<lambda>a. idx ! index_of [0..<?n] a) [0..<?n] = map (\<lambda>a. idx ! a) [0..<?n]"
      by (rule map_cong) (simp_all add: index_of_upt)
    also have "\<dots> = idx"
      using length_all_idx[OF that] map_nth[of idx] by simp
    finally show ?thesis .
  qed
  then have "map (\<lambda>idx. at t (map (\<lambda>a. idx ! index_of [0..<?n] a) [0..<?n])) (all_idx (shape t))
      = map (at t) (all_idx (shape t))"
    by (intro map_cong) simp_all
  then show ?thesis
    using assms by (simp add: ref_permute_def build_def map_nth map_at_all_idx)
qed

lemma emap_replicate: "f x = Inr y \<Longrightarrow> emap f (replicate n x) = Inr (replicate n y)"
  by (induction n) simp_all

lemma ref_iter_empty_rows:
  assumes "shape t = n # 0 # sh"
  shows "ref_iter t = Inr (replicate n \<lparr>shape = 0 # sh, elems = []\<rparr>)"
proof -
  have "map (sub_tensor t (0 # sh)) [0..<n] = replicate n \<lparr>shape = 0 # sh, elems = []\<rparr>"
    by (simp add: sub_tensor_def[abs_def] map_replicate_const)
  then show ?thesis
    by (simp add: ref_iter_def assms)
qed

lemma ref_cat_replicate:
  assumes "0 < n" and "length (elems u) = prod_list sh" and "shape u = 1 # sh"
  shows "ref_cat (replicate n u) 0
      = Inr \<lparr>shape = n # sh, elems = concat (replicate n (elems u))\<rparr>"
proof -
  obtain m where m: "n = Suc m"
    using assms(1) by (cases n) auto
  have s: "sum_list (map (\<lambda>t. shape t ! 0) (replicate n u)) = n"
    by (simp add: assms(3) map_replicate_const sum_list_replicate)
  have e: "map (\<lambda>t. let c = prod_list (drop 0 (shape t)) in take c (drop (0 * c) (elems t)))
             (replicate n u) = replicate n (elems u)"
    by (simp add: assms(2,3) map_replicate_const)
  have l: "list_all (\<lambda>t. length (shape t) = length (shape u) \<and> (shape t)[0 := 0] = (shape u)[0 := 0])
             (replicate m u)"
    by (simp add: list_all_iff)
  have "ref_cat (u # replicate m u) 0
      = Inr \<lparr>shape = (shape u)[0 := sum_list (map (\<lambda>t. shape t ! 0) (u # replicate m u))],
             elems = concat (map (\<lambda>blk. concat (map (\<lambda>t.
                              let c = prod_list (drop 0 (shape t))
                              in take c (drop (blk * c) (elems t))) (u # replicate m u)))
                            [0..<prod_list (take 0 (shape u))])\<rparr>"
    unfolding ref_cat_def using l by (simp add: assms(3))
  then show ?thesis
    using s e by (simp add: m assms(3))
qed

lemma select_rows_no_dims:
  assumes "wf_raw (tensor t)"
      and "shape (tensor t) \<noteq> []"
      and "length (schema_names t) = length (shape (tensor t))"
      and "distinct (schema_names t)"
      and "shape (tensor indices) = n # 0 # sh"
      and "elements_dim \<notin> set (schema_names t)"
      and "0 < n"
  shows "select_rows ref_engine t [] indices elements_dim =
     Inr \<lparr>tensor = \<lparr>shape = n # shape (tensor t),
                     elems = concat (replicate n (elems (tensor t)))\<rparr>,
          schema_names = elements_dim # schema_names t\<rparr>"
proof -
  let ?names = "schema_names t"
  let ?u = "\<lparr>shape = 1 # shape (tensor t), elems = elems (tensor t)\<rparr>"
  let ?row = "\<lparr>shape = 0 # sh, elems = []\<rparr>"
  have sr: "select_rows ref_engine t [] indices elements_dim =
      ebind (torch_permute ref_engine (tensor t) [0..<length ?names]) (\<lambda>vals.
      ebind (torch_iter ref_engine (tensor indices)) (\<lambda>rows.
      ebind (emap (\<lambda>idx. ebind (torch_iter ref_engine idx) (\<lambda>key.
                           ebind (torch_getitem ref_engine vals key) (\<lambda>v.
                             torch_unsqueeze ref_engine v 0))) rows) (\<lambda>tensors.
      ebind (torch_cat ref_engine tensors 0) (\<lambda>r.
        ntorch_tensor r (elements_dim # ?names)))))"
    unfolding select_rows_def Let_def by simp
  have p: "torch_permute ref_engine (tensor t) [0..<length ?names] = Inr (tensor t)"
    using ref_permute_identity[OF assms(1,2)] by (simp add: ref_engine_def assms(3))
  have rows: "torch_iter ref_engine (tensor indices) = Inr (replicate n ?row)"
    using ref_iter_empty_rows[OF assms(5)] by (simp add: ref_engine_def)
  have one: "ebind (torch_iter ref_engine ?row) (\<lambda>key.
               ebind (torch_getitem ref_engine (tensor t) key) (\<lambda>v.
                 torch_unsqueeze ref_engine v 0)) = Inr ?u"
    by (simp add: ref_engine_def ref_iter_def ref_getitem_def ref_unsqueeze_def)
  have em: "emap (\<lambda>idx. ebind (torch_iter ref_engine idx) (\<lambda>key.
               ebind (torch_getitem ref_engine (tensor t) key) (\<lambda>v.
                 torch_unsqueeze ref_engine v 0))) (replicate n ?row) = Inr (replicate n ?u)"
    by (rule emap_replicate) (rule one)
  have c: "torch_cat ref_engine (replicate n ?u) 0
      = Inr \<lparr>shape = n # shape (tensor t), elems = concat (replicate n (elems (tensor t)))\<rparr>"
    using ref_cat_replicate[OF assms(7), of ?u "shape (tensor t)"] assms(1)
    by (simp add: ref_engine_def wf_raw_def)
  have w: "ntorch_tensor \<lparr>shape = n # shape (tensor t),
                           elems = concat (replicate n (elems (tensor t)))\<rparr>
             (elements_dim # ?names)
      = Inr \<lparr>tensor = \<lparr>shape = n # shape (tensor t),
                             elems = concat (replicate n (elems (tensor t)))\<rparr>,
             schema_names = elements_dim # ?names\<rparr>"
    by (simp add: ntorch_tensor_def NamedTensor_init_def assms(3,4,6))
  show ?thesis
    unfolding sr by (simp only: p rows em c w ebind.simps)
qed

text \<open>
  C9, as amended. On the reference engine, for a well-formed NamedTensor \<open>t\<close> of rank
  at least 1 (with rank 0 the permutation request has no argument) and an
  \<^verbatim>\<open>indices\<close> tensor with \<open>n \<ge> 1\<close> rows, a second axis of size 0 and a first axis name
  that is not a name of \<open>t\<close>, \<^verbatim>\<open>multi_index_select(t, (), indices)\<close> returns \<open>n\<close> copies
  of the values of \<open>t\<close> along a new leading axis of size \<open>n\<close>, named after the first
  axis of \<^verbatim>\<open>indices\<close> and followed by the names of \<open>t\<close> in their order. The leading axis
  is a singleton, and the result the identity reshape, when \<open>n = 1\<close>.
\<close>

theorem multi_index_select_no_dims:
  assumes "wf_raw (tensor t)"
      and "shape (tensor t) \<noteq> []"
      and "length (schema_names t) = length (shape (tensor t))"
      and "distinct (schema_names t)"
      and "schema_names indices = elements_dim # index_dim # others"
      and "shape (tensor indices) = n # 0 # sh"
      and "elements_dim \<noteq> index_dim"
      and "elements_dim \<notin> set (schema_names t)"
      and "0 < n"
  shows "multi_index_select ref_engine t [] indices =
           Inr \<lparr>tensor = \<lparr>shape = n # shape (tensor t),
                           elems = concat (replicate n (elems (tensor t)))\<rparr>,
                schema_names = elements_dim # schema_names t\<rparr>
       \<and> (n = 1 \<longrightarrow> multi_index_select ref_engine t [] indices =
           Inr \<lparr>tensor = \<lparr>shape = 1 # shape (tensor t), elems = elems (tensor t)\<rparr>,
                schema_names = elements_dim # schema_names t\<rparr>)"
proof -
  have s: "map_of (nt_shape indices) index_dim = Some 0"
    using assms(5,6,7) by (rule second_axis_size)
  have "multi_index_select ref_engine t [] indices
      = select_rows ref_engine t [] indices elements_dim"
    unfolding multi_index_select_def by (simp add: assms(5) s)
  then show ?thesis
    using select_rows_no_dims[OF assms(1,2,3,4,6,8,9)] by auto
qed

theorem multi_index_select_no_dims_witness:
  "wf_raw (tensor ex_T) \<and> shape (tensor ex_T) \<noteq> []
   \<and> length (schema_names ex_T) = length (shape (tensor ex_T))
   \<and> distinct (schema_names ex_T)
   \<and> schema_names ex_IX1 = ''e'' # ''d'' # []
   \<and> shape (tensor ex_IX1) = 1 # 0 # []
   \<and> ''e'' \<noteq> ''d'' \<and> ''e'' \<notin> set (schema_names ex_T) \<and> (0::nat) < 1
   \<and> multi_index_select ref_engine ex_T [] ex_IX1 = Inr ex_T1"
proof -
  have h: "wf_raw (tensor ex_T)" "shape (tensor ex_T) \<noteq> []"
          "length (schema_names ex_T) = length (shape (tensor ex_T))"
          "distinct (schema_names ex_T)"
          "schema_names ex_IX1 = ''e'' # ''d'' # []"
          "shape (tensor ex_IX1) = 1 # 0 # []"
          "''e'' \<noteq> ''d''" "''e'' \<notin> set (schema_names ex_T)" "(0::nat) < 1"
    by (simp_all add: ex_T_def ex_IX1_def wf_raw_def)
  from multi_index_select_no_dims[OF h]
  have "multi_index_select ref_engine ex_T [] ex_IX1 = Inr ex_T1"
    by (simp add: ex_T_def ex_T1_def)
  with h show ?thesis by blast
qed

text \<open>
  The claim as stated fails: with two rows in \<^verbatim>\<open>indices\<close> the leading axis has size 2
  and the values of \<open>t\<close> occur twice.
\<close>

theorem multi_index_select_no_dims_counterexample:
  "map_of (nt_shape ex_IX0) ''d'' = Some 0
   \<and> multi_index_select ref_engine ex_T [] ex_IX0 = Inr ex_T2
   \<and> shape (tensor ex_T2) \<noteq> 1 # shape (tensor ex_T)
   \<and> elems (tensor ex_T2) \<noteq> elems (tensor ex_T)"
  by code_simp

text \<open>
  With a tensor of rank 0 the permutation request has no argument and the reference
  engine refuses it.
\<close>

lemma multi_index_select_rank_0:
  "multi_index_select ref_engine ex_scalar [] ex_IX1 = Inl EngineError"
  by code_simp

end
